theory Spec2Isabelle
  imports Complex_Main
begin

section \<open>The swap pricing engine of the crypto swapper\<close>

text \<open>
  The development follows \<^verbatim>\<open>src/model/Swap.ts\<close> (the class \<^verbatim>\<open>Swap\<close> with
  \<^verbatim>\<open>applySwapFee\<close> and \<^verbatim>\<open>updatePriceOffer\<close>), \<^verbatim>\<open>src/routes/Swapper.ts\<close> (the
  handler \<^verbatim>\<open>createSwapOrder\<close>) and \<^verbatim>\<open>src/services/Okex.service.ts\<close> (the types
  \<^verbatim>\<open>Order\<close> and \<^verbatim>\<open>OrderBooks\<close>).

  Every number of the pricing path is a value of the npm package currency.js, used with
  its default settings (precision 2). Such a value holds \<^verbatim>\<open>intValue\<close>, a whole number of
  hundredths, and every operation of the package builds a new value through the package's
  \<^verbatim>\<open>parse\<close>, which multiplies by 100, prints with \<^verbatim>\<open>toFixed(4)\<close> and applies
  \<^verbatim>\<open>Math.round\<close>. The package works on JavaScript numbers; here the arithmetic between two
  rounding steps is taken as exact (integers and fractions of integers), and only the
  rounding steps the package itself performs are modelled. Division by zero gives the
  JavaScript values \<^verbatim>\<open>NaN\<close> and \<^verbatim>\<open>Infinity\<close>, which the package carries along.
\<close>

subsection \<open>Decimal numerals and currency.js values\<close>

text \<open>
  The strings of an order and the requested volume are decimal numerals, as the exchange
  sends them and as the route's \<^verbatim>\<open>isDecimal\<close> validation admits them.
  \<open>Decimal m e\<close> is the numeral with value \<open>m / 10 ^ e\<close>: \<^verbatim>\<open>"36713.5"\<close> is
  \<open>Decimal 367135 1\<close>, \<^verbatim>\<open>"1000"\<close> is \<open>Decimal 1000 0\<close>.
\<close>

datatype decimal = Decimal int nat

datatype currency = Cents int | PosInfinity | NegInfinity | NaN

text \<open>
  \<^verbatim>\<open>(n / d).toFixed(4)\<close> for \<open>0 < d\<close>, as the number of ten-thousandths it prints: the
  nearest one, a tie going away from zero (the sign is taken off first).
\<close>

definition toFixed4 :: "int \<Rightarrow> int \<Rightarrow> int" where
  "toFixed4 n d =
     (if 0 \<le> n then (2 * (n * 10000) + d) div (2 * d)
      else - ((2 * (- n * 10000) + d) div (2 * d)))"

text \<open>\<^verbatim>\<open>Math.round\<close> of \<open>k\<close> ten-thousandths: the nearest integer, a tie going up.\<close>

definition math_round :: "int \<Rightarrow> int" where
  "math_round k = (2 * k + 10000) div 20000"

text \<open>
  The tail of the package's \<^verbatim>\<open>parse\<close>, which reads
  \<^verbatim>\<open>v *= precision; v = v.toFixed(4); return useRounding ? round(v) : v;\<close> here for a
  number \<open>n / d\<close> that is already multiplied by the precision.
\<close>

definition parse_scaled :: "int \<Rightarrow> int \<Rightarrow> int" where
  "parse_scaled n d = math_round (toFixed4 n d)"

text \<open>
  \<^verbatim>\<open>currency(v)\<close> for a decimal numeral or a number \<open>v\<close>: \<^verbatim>\<open>intValue\<close> is
  \<^verbatim>\<open>parse(v)\<close>.
\<close>

fun currency_of :: "decimal \<Rightarrow> currency" where
  "currency_of (Decimal m e) = Cents (parse_scaled (m * 100) (10 ^ e))"

text \<open>
  \<^verbatim>\<open>a.add(b)\<close>: \<^verbatim>\<open>intValue += parse(b)\<close>, divided by the precision and parsed again;
  on hundredths this is their sum. The remaining equations are JavaScript's arithmetic on
  \<^verbatim>\<open>NaN\<close> and the infinities.
\<close>

fun add :: "currency \<Rightarrow> currency \<Rightarrow> currency" where
  "add (Cents a) (Cents b) = Cents (a + b)"
| "add NaN _ = NaN"
| "add _ NaN = NaN"
| "add PosInfinity NegInfinity = NaN"
| "add NegInfinity PosInfinity = NaN"
| "add PosInfinity _ = PosInfinity"
| "add NegInfinity _ = NegInfinity"
| "add (Cents a) b = b"

fun negate :: "currency \<Rightarrow> currency" where
  "negate (Cents a) = Cents (- a)"
| "negate PosInfinity = NegInfinity"
| "negate NegInfinity = PosInfinity"
| "negate NaN = NaN"

text \<open>\<^verbatim>\<open>a.subtract(b)\<close>: \<^verbatim>\<open>intValue -= parse(b)\<close>.\<close>

definition subtract :: "currency \<Rightarrow> currency \<Rightarrow> currency" where
  "subtract a b = add a (negate b)"

text \<open>The sign of an infinite product or quotient.\<close>

definition infinity :: "bool \<Rightarrow> currency" where
  "infinity positive = (if positive then PosInfinity else NegInfinity)"

text \<open>
  \<^verbatim>\<open>a.multiply(b)\<close> with a currency value \<open>b\<close>: the package computes
  \<^verbatim>\<open>currency((intValue *= b) / precision)\<close>, where \<^verbatim>\<open>intValue *= b\<close> converts \<open>b\<close>
  to a number through its \<^verbatim>\<open>toString\<close> (its value with two decimals); the product of
  the two numbers of hundredths, divided by 100, is parsed again.
\<close>

fun multiply :: "currency \<Rightarrow> currency \<Rightarrow> currency" where
  "multiply (Cents a) (Cents b) = Cents (parse_scaled (a * b) 100)"
| "multiply NaN _ = NaN"
| "multiply _ NaN = NaN"
| "multiply (Cents a) PosInfinity = (if a = 0 then NaN else infinity (0 < a))"
| "multiply (Cents a) NegInfinity = (if a = 0 then NaN else infinity (a < 0))"
| "multiply PosInfinity (Cents b) = (if b = 0 then NaN else infinity (0 < b))"
| "multiply NegInfinity (Cents b) = (if b = 0 then NaN else infinity (b < 0))"
| "multiply PosInfinity PosInfinity = PosInfinity"
| "multiply PosInfinity NegInfinity = NegInfinity"
| "multiply NegInfinity PosInfinity = NegInfinity"
| "multiply NegInfinity NegInfinity = PosInfinity"

text \<open>
  \<^verbatim>\<open>a.divide(b)\<close>: the package computes
  \<^verbatim>\<open>currency(intValue /= parse(b, settings, false))\<close>; the quotient of the two numbers of
  hundredths is parsed again (times 100, \<^verbatim>\<open>toFixed(4)\<close>, \<^verbatim>\<open>Math.round\<close>), which leaves
  it with two decimals. The divisor reaches the division through \<^verbatim>\<open>toFixed(4)\<close>, so a
  zero divisor is the positive zero.
\<close>

fun divide_currency :: "currency \<Rightarrow> currency \<Rightarrow> currency" where
  "divide_currency (Cents a) (Cents b) =
     (if b = 0 then (if a = 0 then NaN else infinity (0 < a))
      else if 0 < b then Cents (parse_scaled (a * 100) b)
      else Cents (parse_scaled (- a * 100) (- b)))"
| "divide_currency NaN _ = NaN"
| "divide_currency _ NaN = NaN"
| "divide_currency (Cents a) _ = Cents 0"
| "divide_currency PosInfinity (Cents b) = infinity (0 \<le> b)"
| "divide_currency NegInfinity (Cents b) = infinity (b < 0)"
| "divide_currency _ _ = NaN"

text \<open>\<^verbatim>\<open>a.value > 0\<close>.\<close>

fun value_positive :: "currency \<Rightarrow> bool" where
  "value_positive (Cents a) = (0 < a)"
| "value_positive PosInfinity = True"
| "value_positive _ = False"

subsection \<open>Formatting\<close>

fun digit :: "nat \<Rightarrow> char" where
  "digit n = ''0123456789'' ! (n mod 10)"

fun digits :: "nat \<Rightarrow> string" where
  "digits n = (if n < 10 then [digit n] else digits (n div 10) @ [digit n])"

text \<open>\<^verbatim>\<open>toFixed(2)\<close> of a non-negative number of hundredths.\<close>

definition toFixed2 :: "nat \<Rightarrow> string" where
  "toFixed2 c = digits (c div 100) @ ''.'' @ [digit (c mod 100 div 10), digit c]"

text \<open>
  \<^verbatim>\<open>c.format({ symbol: '', separator: '', decimal: '.' })\<close>: the text of the value with
  two decimals, its sign taken off and put back by the pattern chosen with
  \<^verbatim>\<open>value >= 0\<close>; \<^verbatim>\<open>NaN >= 0\<close> is false, so \<^verbatim>\<open>NaN\<close> gets the negative pattern.
\<close>

fun format :: "currency \<Rightarrow> string" where
  "format (Cents a) = (if 0 \<le> a then toFixed2 (nat a) else ''-'' @ toFixed2 (nat (- a)))"
| "format PosInfinity = ''Infinity''"
| "format NegInfinity = ''-Infinity''"
| "format NaN = ''-NaN''"

subsection \<open>Orders, order books, configuration and the swap\<close>

text \<open>
  \<^verbatim>\<open>type Order = [string, string, string, string]; // price, volume, liquidated, amount\<close>
\<close>

type_synonym order = "decimal \<times> decimal \<times> decimal \<times> decimal"

record orderBooks =
  asks :: "order list"
  bids :: "order list"
  timestamp :: int

datatype side = Buy | Sell

datatype error = Error string

text \<open>
  The three values the class reads from the configuration are parameters:
  \<^verbatim>\<open>swapper.fees.buy\<close>, \<^verbatim>\<open>swapper.fees.sell\<close> and \<^verbatim>\<open>swapper.offerTime\<close>
  (milliseconds).
\<close>

record config =
  fees_buy :: decimal
  fees_sell :: decimal
  offerTime :: int

text \<open>
  The fields of the class \<^verbatim>\<open>Swap\<close>; an optional field that is not set is \<open>None\<close>.
  A \<^verbatim>\<open>Date\<close> is its number of milliseconds (\<^verbatim>\<open>getTime()\<close>).
\<close>

record swap =
  swap_id :: "nat option"
  pair :: string
  side :: side
  volume :: decimal
  providerPrice :: "string option"
  price :: "string option"
  start :: "int option"
  expiration :: "int option"

text \<open>The constructor sets the three requested terms and nothing else.\<close>

definition Swap :: "string \<Rightarrow> side \<Rightarrow> decimal \<Rightarrow> swap" where
  "Swap p sd v =
     \<lparr>swap_id = None, pair = p, side = sd, volume = v, providerPrice = None,
      price = None, start = None, expiration = None\<rparr>"

subsection \<open>The fee\<close>

text \<open>
  \<^verbatim>\<open>divide(100)\<close> has a number as its argument: \<^verbatim>\<open>parse(100, settings, false)\<close> is
  \<^verbatim>\<open>"10000.0000"\<close>, the same divisor as the currency value of 100.
\<close>

definition applySwapFee :: "config \<Rightarrow> side \<Rightarrow> currency \<Rightarrow> currency" where
  "applySwapFee cfg sd providerPrice' =
     (let fee = currency_of (if sd = Buy then fees_buy cfg else fees_sell cfg);
          feeFactor =
            divide_currency (if sd = Buy then add (currency_of (Decimal 100 0)) fee
                    else subtract (currency_of (Decimal 100 0)) fee)
                   (currency_of (Decimal 100 0))
      in multiply providerPrice' feeFactor)"

subsection \<open>The pricing walk\<close>

text \<open>
  Line 49: \<^verbatim>\<open>orderSize.multiply(amountOrders.subtract(liquidatedOrders))\<close>.
\<close>

fun orderVolume :: "order \<Rightarrow> currency" where
  "orderVolume (orderPrice, orderSize, liquidatedOrders, amountOrders) =
     multiply (currency_of orderSize)
       (subtract (currency_of amountOrders) (currency_of liquidatedOrders))"

fun orderPrice :: "order \<Rightarrow> currency" where
  "orderPrice (p, sz, l, a) = currency_of p"

text \<open>
  The \<^verbatim>\<open>for\<close> loop of \<^verbatim>\<open>updatePriceOffer\<close> over the orders that are left, with the two
  variables it updates, \<^verbatim>\<open>swapPrice\<close> and \<^verbatim>\<open>iVolume\<close>; \<^verbatim>\<open>break\<close> returns them.
\<close>

fun priceLoop :: "currency \<Rightarrow> order list \<Rightarrow> currency \<times> currency \<Rightarrow> currency \<times> currency" where
  "priceLoop swapVolume [] (swapPrice, iVolume) = (swapPrice, iVolume)"
| "priceLoop swapVolume (ord # orders) (swapPrice, iVolume) =
     (let remainingVolume = subtract swapVolume iVolume;
          buyAllOrder = value_positive (subtract remainingVolume (orderVolume ord));
          boughtVolume = (if buyAllOrder then orderVolume ord else remainingVolume);
          swapPrice' =
            add swapPrice (multiply (orderPrice ord) (divide_currency boughtVolume swapVolume));
          iVolume' = add iVolume boughtVolume
      in if \<not> buyAllOrder then (swapPrice', iVolume')
         else priceLoop swapVolume orders (swapPrice', iVolume'))"

text \<open>
  \<^verbatim>\<open>updatePriceOffer\<close>. The exchange service is the function \<open>getMarketBooks\<close>, which
  may fail; \<open>now\<close> is what \<^verbatim>\<open>new Date()\<close> reads. The result is the object after the call
  and the error thrown, if any: a throw leaves the object as it was.
\<close>

definition updatePriceOffer ::
  "config \<Rightarrow> (string \<Rightarrow> error + orderBooks) \<Rightarrow> int \<Rightarrow> swap \<Rightarrow> swap \<times> error option" where
  "updatePriceOffer cfg getMarketBooks now s =
     (case getMarketBooks (pair s) of
        Inl e \<Rightarrow> (s, Some e)
      | Inr orderbooks \<Rightarrow>
          (let orders = (if side s = Buy then asks orderbooks else bids orderbooks);
               swapVolume = currency_of (volume s);
               (swapPrice, iVolume) =
                  priceLoop swapVolume orders (currency_of (Decimal 0 0), currency_of (Decimal 0 0))
           in if value_positive (subtract swapVolume iVolume)
              then (s, Some (Error ''Not enough orders to fulfill the swap''))
              else (s\<lparr>providerPrice := Some (format swapPrice),
                      price := Some (format (applySwapFee cfg (side s) swapPrice)),
                      start := Some now,
                      expiration := Some (now + offerTime cfg)\<rparr>, None)))"

subsection \<open>The route \<^verbatim>\<open>/createSwapOrder\<close>\<close>

text \<open>
  The body of the response is a JSON object, kept as the list of its members in the order
  the handler writes them. \<^verbatim>\<open>JSON.stringify\<close> leaves out a member whose value is
  \<^verbatim>\<open>undefined\<close> and prints a \<^verbatim>\<open>Date\<close> as a string.
\<close>

datatype json = JNumber nat | JString string | JNumeral decimal | JDate int

fun json_member :: "string \<Rightarrow> json option \<Rightarrow> (string \<times> json) list" where
  "json_member k None = []"
| "json_member k (Some v) = [(k, v)]"

fun side_string :: "side \<Rightarrow> string" where
  "side_string Buy = ''buy''"
| "side_string Sell = ''sell''"

text \<open>
  The handler \<^verbatim>\<open>createSwapOrder\<close> for a request body that passed the validators.
  The repository's \<^verbatim>\<open>saveSwap\<close> is a parameter: the object as the repository leaves it,
  or the error it throws.
\<close>

definition createSwapOrder ::
  "config \<Rightarrow> (string \<Rightarrow> error + orderBooks) \<Rightarrow> (swap \<Rightarrow> error + swap) \<Rightarrow> int \<Rightarrow>
   string \<times> side \<times> decimal \<Rightarrow> error + (string \<times> json) list" where
  "createSwapOrder cfg getMarketBooks saveSwap now body =
     (case body of (pair', side', volume') \<Rightarrow>
        (case updatePriceOffer cfg getMarketBooks now (Swap pair' side' volume') of
           (s, Some e) \<Rightarrow> Inl e
         | (s, None) \<Rightarrow>
             (case saveSwap s of
                Inl e \<Rightarrow> Inl e
              | Inr swap' \<Rightarrow>
                  Inr (json_member ''id'' (map_option JNumber (swap_id swap'))
                     @ json_member ''pair'' (Some (JString (pair swap')))
                     @ json_member ''side'' (Some (JString (side_string (side swap'))))
                     @ json_member ''volume'' (Some (JNumeral (volume swap')))
                     @ json_member ''price'' (map_option JString (price swap'))
                     @ json_member ''start'' (map_option JDate (start swap'))
                     @ json_member ''expiration'' (map_option JDate (expiration swap'))))))"

subsection \<open>Confirmation\<close>

text \<open>
  Modelled from the spec: the quote of section 3 as far as confirmation reads and writes
  it (its state, \<^verbatim>\<open>expiresAt\<close> and \<^verbatim>\<open>executedAt\<close>) and the errors of section 7 that
  confirmation can end with. The repository has no code for them under its sources.
\<close>

datatype quote_state = Pricing | Open | Confirmed | ConfirmFailed | Expired





subsection \<open>Quantities of the statements\<close>

text \<open>
  The hundredths a numeral parses to: \<open>currency_of d = Cents (cents_of d)\<close>.
\<close>

fun cents_of :: "decimal \<Rightarrow> int" where
  "cents_of (Decimal m e) = parse_scaled (m * 100) (10 ^ e)"

text \<open>The hundredths of \<open>orderVolume\<close> and of \<open>orderPrice\<close>.\<close>

fun capacity :: "order \<Rightarrow> int" where
  "capacity (p, sz, l, a) = parse_scaled (cents_of sz * (cents_of a - cents_of l)) 100"

fun price_cents :: "order \<Rightarrow> int" where
  "price_cents (p, sz, l, a) = cents_of p"

text \<open>The cumulative depth of a side, as the walk sees it.\<close>

definition depth :: "order list \<Rightarrow> int" where
  "depth orders = sum_list (map capacity orders)"

text \<open>The side of the book the walk reads (line 41).\<close>

definition selected :: "side \<Rightarrow> orderBooks \<Rightarrow> order list" where
  "selected sd book = (if sd = Buy then asks book else bids book)"

text \<open>
  The levels the loop visits, each with the hundredths of \<^verbatim>\<open>boughtVolume\<close> it takes
  there, for a requested volume of \<open>v\<close> hundredths and \<open>i\<close> hundredths already taken.
\<close>

fun consumed :: "int \<Rightarrow> order list \<Rightarrow> int \<Rightarrow> (order \<times> int) list" where
  "consumed v [] i = []"
| "consumed v (ord # orders) i =
     (if 0 < v - i - capacity ord then (ord, capacity ord) # consumed v orders (i + capacity ord)
      else [(ord, v - i)])"

text \<open>The hundredths of \<^verbatim>\<open>boughtVolume.divide(swapVolume)\<close> for a volume that is not zero.\<close>

definition ratio_cents :: "int \<Rightarrow> int \<Rightarrow> int" where
  "ratio_cents t v = (if 0 < v then parse_scaled (t * 100) v else parse_scaled (- t * 100) (- v))"

text \<open>What one visited level adds to \<^verbatim>\<open>swapPrice\<close>, and the price of the whole walk.\<close>

fun contribution :: "int \<Rightarrow> order \<times> int \<Rightarrow> int" where
  "contribution v (ord, t) = parse_scaled (price_cents ord * ratio_cents t v) 100"

definition walk_price :: "int \<Rightarrow> order list \<Rightarrow> int" where
  "walk_price v orders = sum_list (map (contribution v) (consumed v orders 0))"


subsection \<open>The specification's exact arithmetic\<close>






subsection \<open>The inputs of the tests and of the examples\<close>

text \<open>
  The configuration the tests run with: a fee of 2 on both sides and an offer time of
  thirty seconds.
\<close>

definition test_config :: config where
  "test_config = \<lparr>fees_buy = Decimal 2 0, fees_sell = Decimal 2 0, offerTime = 30000\<rparr>"

text \<open>The order book of the test ``Should return a the data for the trade order''.\<close>

definition test_books :: orderBooks where
  "test_books =
     \<lparr>asks = [(Decimal 367135 1, Decimal 15169 0, Decimal 0 0, Decimal 1 0)],
      bids = [(Decimal 36687 0, Decimal 17171 0, Decimal 0 0, Decimal 1 0)],
      timestamp = 0\<rparr>"

text \<open>The order book of the test with not enough orders.\<close>

definition thin_books :: orderBooks where
  "thin_books =
     \<lparr>asks = [(Decimal 367135 1, Decimal 15 0, Decimal 0 0, Decimal 1 0)],
      bids = [(Decimal 36687 0, Decimal 17 0, Decimal 0 0, Decimal 1 0)],
      timestamp = 0\<rparr>"

text \<open>A book of asks and nothing else.\<close>

definition asks_only :: "order list \<Rightarrow> orderBooks" where
  "asks_only orders = \<lparr>asks = orders, bids = [], timestamp = 0\<rparr>"

section \<open>Rounding and the walk\<close>







lemma currency_of_cents: "currency_of d = Cents (cents_of d)"
  by (cases d) simp

lemma orderVolume_capacity: "orderVolume ord = Cents (capacity ord)"
  by (cases ord) (simp add: currency_of_cents subtract_def)

lemma orderPrice_cents: "orderPrice ord = Cents (price_cents ord)"
  by (cases ord) (simp add: currency_of_cents)








lemma updatePriceOffer_walk:
  assumes "getMarketBooks (pair s) = Inr book"
  shows "updatePriceOffer cfg getMarketBooks now s =
     (case priceLoop (Cents (cents_of (volume s))) (selected (side s) book) (Cents 0, Cents 0) of
        (swapPrice, iVolume) \<Rightarrow>
          if value_positive (subtract (Cents (cents_of (volume s))) iVolume)
          then (s, Some (Error ''Not enough orders to fulfill the swap''))
          else (s\<lparr>providerPrice := Some (format swapPrice),
                  price := Some (format (applySwapFee cfg (side s) swapPrice)),
                  start := Some now,
                  expiration := Some (now + offerTime cfg)\<rparr>, None))"
proof -
  have z: "parse_scaled 0 1 = 0"
    by (simp add: parse_scaled_def toFixed4_def math_round_def)
  show ?thesis
    using assms by (simp add: updatePriceOffer_def selected_def currency_of_cents z Let_def)
qed












lemma json_member_key: "set (map fst (json_member k v)) \<subseteq> {k}"
  by (cases v) simp_all


section \<open>The tests of the repository\<close>

lemmas eval_defs = updatePriceOffer_def applySwapFee_def subtract_def parse_scaled_def toFixed4_def
  math_round_def toFixed2_def Swap_def test_config_def test_books_def thin_books_def asks_only_def
  infinity_def selected_def depth_def walk_price_def ratio_cents_def

text \<open>
  The model gives the prices the two tests of the route expect: \<^verbatim>\<open>'37447.77'\<close> for
  buying and \<^verbatim>\<open>'35953.26'\<close> for selling 1000 on the book of the tests, and the error
  message of the thin book.
\<close>

lemma test_sell_price:
  "price (fst (updatePriceOffer test_config (\<lambda>p. Inr test_books) now
      (Swap ''BTC-USDT'' Sell (Decimal 1000 0)))) = Some ''35953.26''"
  by (simp add: eval_defs)

lemma test_not_enough_orders:
  "snd (updatePriceOffer test_config (\<lambda>p. Inr thin_books) now
      (Swap ''BTC-USDT'' Buy (Decimal 1000 0))) =
   Some (Error ''Not enough orders to fulfill the swap'')"
  by (simp add: eval_defs)

section \<open>The claims\<close>

subsection \<open>C1: the capacity of a level\<close>




subsection \<open>C2: not enough orders\<close>




subsection \<open>C3: the scenario of the first test\<close>



subsection \<open>C4: the price of a filled walk\<close>




subsection \<open>C5: where the arithmetic rounds\<close>




subsection \<open>C6: the fee\<close>




subsection \<open>C7: what a successful pricing sets\<close>

text \<open>
  C7: whenever \<^verbatim>\<open>updatePriceOffer\<close> returns without throwing, \<open>providerPrice\<close> and \<open>price\<close>
  are set, \<open>start\<close> is the time of the call and \<open>expiration\<close> is \<open>start\<close> plus the
  configured offer time; when it throws, none of the four has been assigned.
\<close>

theorem offer_set_together:
  "updatePriceOffer cfg getMarketBooks now s = (s', r) \<Longrightarrow>
     (r = None \<longrightarrow> providerPrice s' \<noteq> None \<and> price s' \<noteq> None \<and> start s' = Some now
                    \<and> expiration s' = Some (now + offerTime cfg))
     \<and> (r \<noteq> None \<longrightarrow> s' = s)"
  by (auto simp: updatePriceOffer_def Let_def split: sum.splits prod.splits if_splits)

theorem offer_set_together_witness:
  "updatePriceOffer test_config (\<lambda>p. Inr test_books) 1000 (Swap ''BTC-USDT'' Buy (Decimal 1000 0)) =
     ((Swap ''BTC-USDT'' Buy (Decimal 1000 0))
        \<lparr>providerPrice := Some ''36713.50'', price := Some ''37447.77'',
         start := Some 1000, expiration := Some 31000\<rparr>, None)
   \<and> start ((Swap ''BTC-USDT'' Buy (Decimal 1000 0))
        \<lparr>providerPrice := Some ''36713.50'', price := Some ''37447.77'',
         start := Some 1000, expiration := Some 31000\<rparr>) = Some 1000
   \<and> expiration ((Swap ''BTC-USDT'' Buy (Decimal 1000 0))
        \<lparr>providerPrice := Some ''36713.50'', price := Some ''37447.77'',
         start := Some 1000, expiration := Some 31000\<rparr>) = Some (1000 + offerTime test_config)"
proof -
  let ?s' = "(Swap ''BTC-USDT'' Buy (Decimal 1000 0))
        \<lparr>providerPrice := Some ''36713.50'', price := Some ''37447.77'',
         start := Some 1000, expiration := Some 31000\<rparr>"
  have h: "updatePriceOffer test_config (\<lambda>p. Inr test_books) 1000
             (Swap ''BTC-USDT'' Buy (Decimal 1000 0)) = (?s', None)"
    by (simp add: eval_defs)
  show ?thesis using h offer_set_together [OF h] by simp
qed

subsection \<open>C8: confirming an expired quote\<close>




subsection \<open>C9: the response of \<^verbatim>\<open>/createSwapOrder\<close>\<close>

text \<open>
  C9: the body of every successful response has no members other than \<open>id\<close>, \<open>pair\<close>,
  \<open>side\<close>, \<open>volume\<close>, \<open>price\<close>, \<open>start\<close> and \<open>expiration\<close>; \<open>providerPrice\<close> is
  not among them.
\<close>

theorem response_members:
  "createSwapOrder cfg getMarketBooks saveSwap now body = Inr js \<Longrightarrow>
     set (map fst js) \<subseteq> {''id'', ''pair'', ''side'', ''volume'', ''price'', ''start'', ''expiration''}
     \<and> ''providerPrice'' \<notin> set (map fst js)"
proof -
  assume a: "createSwapOrder cfg getMarketBooks saveSwap now body = Inr js"
  obtain swap' :: swap where js: "js = json_member ''id'' (map_option JNumber (swap_id swap'))
                     @ json_member ''pair'' (Some (JString (pair swap')))
                     @ json_member ''side'' (Some (JString (side_string (side swap'))))
                     @ json_member ''volume'' (Some (JNumeral (volume swap')))
                     @ json_member ''price'' (map_option JString (price swap'))
                     @ json_member ''start'' (map_option JDate (start swap'))
                     @ json_member ''expiration'' (map_option JDate (expiration swap'))"
    using a by (auto simp: createSwapOrder_def split: prod.splits option.splits sum.splits)
  have "set (map fst js) \<subseteq> {''id'', ''pair'', ''side'', ''volume'', ''price'', ''start'', ''expiration''}"
    unfolding js using json_member_key [of "''id''" "map_option JNumber (swap_id swap')"]
      json_member_key [of "''price''" "map_option JString (price swap')"]
      json_member_key [of "''start''" "map_option JDate (start swap')"]
      json_member_key [of "''expiration''" "map_option JDate (expiration swap')"]
    by auto
  then show ?thesis by auto
qed

theorem response_members_witness:
  "createSwapOrder test_config (\<lambda>p. Inr test_books) (\<lambda>s. Inr (s\<lparr>swap_id := Some 1\<rparr>)) 1000
       (''BTC-USDT'', Buy, Decimal 1000 0) =
     Inr [(''id'', JNumber 1), (''pair'', JString ''BTC-USDT''), (''side'', JString ''buy''),
          (''volume'', JNumeral (Decimal 1000 0)), (''price'', JString ''37447.77''),
          (''start'', JDate 1000), (''expiration'', JDate 31000)]
   \<and> ''providerPrice'' \<notin> set (map fst
         [(''id'', JNumber 1), (''pair'', JString ''BTC-USDT''), (''side'', JString ''buy''),
          (''volume'', JNumeral (Decimal 1000 0)), (''price'', JString ''37447.77''),
          (''start'', JDate 1000), (''expiration'', JDate 31000)])"
proof -
  have h: "createSwapOrder test_config (\<lambda>p. Inr test_books) (\<lambda>s. Inr (s\<lparr>swap_id := Some 1\<rparr>)) 1000
       (''BTC-USDT'', Buy, Decimal 1000 0) =
     Inr [(''id'', JNumber 1), (''pair'', JString ''BTC-USDT''), (''side'', JString ''buy''),
          (''volume'', JNumeral (Decimal 1000 0)), (''price'', JString ''37447.77''),
          (''start'', JDate 1000), (''expiration'', JDate 31000)]"
    by (simp add: createSwapOrder_def eval_defs)
  show ?thesis using h response_members [OF h] by blast
qed

subsection \<open>C10: a requested volume of zero\<close>

text \<open>
  C10 says that with a requested volume of zero the error for lack of orders is never
  thrown, whatever the book. A level of negative capacity is taken whole, which leaves a
  positive shortfall: with the single ask \<^verbatim>\<open>("100", "1", "1", "0")\<close>, of capacity -1, the
  call throws.
\<close>

theorem negative_level_at_volume_zero:
  "cents_of (Decimal 0 0) = 0
   \<and> capacity (Decimal 100 0, Decimal 1 0, Decimal 1 0, Decimal 0 0) = - 100
   \<and> updatePriceOffer test_config
        (\<lambda>p. Inr (asks_only [(Decimal 100 0, Decimal 1 0, Decimal 1 0, Decimal 0 0)])) 0
        (Swap ''BTC-USDT'' Buy (Decimal 0 0)) =
       (Swap ''BTC-USDT'' Buy (Decimal 0 0), Some (Error ''Not enough orders to fulfill the swap''))"
  by (simp add: eval_defs)

text \<open>
  C10, amended: with a requested volume of zero and a book whose levels on the selected
  side have no negative capacity, the error for lack of orders is not thrown and the call
  succeeds, the engine enforcing no positive volume. On a book that is not empty the walk
  divides the volume taken, zero, by the requested volume, zero: the share is \<^verbatim>\<open>NaN\<close>,
  and so are the provider price and the price, which are stored as the text that
  \<^verbatim>\<open>format\<close> gives for \<^verbatim>\<open>NaN\<close>.
\<close>

theorem zero_volume:
  assumes "getMarketBooks (pair s) = Inr book"
    and "cents_of (volume s) = 0"
    and "\<forall>ord \<in> set (selected (side s) book). 0 \<le> capacity ord"
  shows "snd (updatePriceOffer cfg getMarketBooks now s) = None
     \<and> divide_currency (Cents 0) (currency_of (volume s)) = NaN
     \<and> (selected (side s) book \<noteq> [] \<longrightarrow>
          priceLoop (currency_of (volume s)) (selected (side s) book) (Cents 0, Cents 0) = (NaN, Cents 0)
          \<and> providerPrice (fst (updatePriceOffer cfg getMarketBooks now s)) = Some (format NaN)
          \<and> price (fst (updatePriceOffer cfg getMarketBooks now s)) = Some (format NaN))"
proof (cases "selected (side s) book")
  case Nil
  then show ?thesis
    using assms(2)
    by (simp add: updatePriceOffer_walk [of getMarketBooks s book, OF assms(1)] subtract_def
        currency_of_cents)
next
  case (Cons ord orders)
  have c: "0 \<le> capacity ord" using assms(3) Cons by simp
  have w: "priceLoop (Cents 0) (ord # orders) (Cents 0, Cents 0) = (NaN, Cents 0)"
    using c by (simp add: orderVolume_capacity orderPrice_cents subtract_def Let_def)
  show ?thesis
    using assms(2) w Cons
    by (simp add: updatePriceOffer_walk [of getMarketBooks s book, OF assms(1)] subtract_def
        currency_of_cents applySwapFee_def Let_def)
qed

theorem zero_volume_witness:
  "(\<lambda>p. Inr test_books) (pair (Swap ''BTC-USDT'' Sell (Decimal 0 0))) =
      (Inr test_books :: error + orderBooks)
   \<and> cents_of (volume (Swap ''BTC-USDT'' Sell (Decimal 0 0))) = 0
   \<and> list_all (\<lambda>ord. 0 \<le> capacity ord)
         (selected (side (Swap ''BTC-USDT'' Sell (Decimal 0 0))) test_books)
   \<and> selected (side (Swap ''BTC-USDT'' Sell (Decimal 0 0))) test_books \<noteq> []
   \<and> snd (updatePriceOffer test_config (\<lambda>p. Inr test_books) 0
        (Swap ''BTC-USDT'' Sell (Decimal 0 0))) = None
   \<and> providerPrice (fst (updatePriceOffer test_config (\<lambda>p. Inr test_books) 0
        (Swap ''BTC-USDT'' Sell (Decimal 0 0)))) = Some ''-NaN''"
proof -
  let ?s = "Swap ''BTC-USDT'' Sell (Decimal 0 0)"
  have h1: "(\<lambda>p. Inr test_books) (pair ?s) = (Inr test_books :: error + orderBooks)" by simp
  have h2: "cents_of (volume ?s) = 0" by (simp add: eval_defs)
  have h3: "\<forall>ord \<in> set (selected (side ?s) test_books). 0 \<le> capacity ord"
    by (simp add: eval_defs)
  have h4: "selected (side ?s) test_books \<noteq> []" by (simp add: eval_defs)
  note zv = zero_volume [of "\<lambda>p. Inr test_books" ?s test_books test_config 0, OF h1 h2 h3]
  have r1: "snd (updatePriceOffer test_config (\<lambda>p. Inr test_books) 0 ?s) = None"
    using zv by blast
  have "providerPrice (fst (updatePriceOffer test_config (\<lambda>p. Inr test_books) 0 ?s)) =
          Some (format NaN)"
    using zv h4 by blast
  then have r2: "providerPrice (fst (updatePriceOffer test_config (\<lambda>p. Inr test_books) 0 ?s)) =
          Some ''-NaN''"
    by simp
  have h3': "list_all (\<lambda>ord. 0 \<le> capacity ord) (selected (side ?s) test_books)"
    using h3 by (simp only: list_all_iff)
  show ?thesis using h1 h2 h3' h4 r1 r2 by (intro conjI)
qed

end
